theory Spec2Isabelle
  imports Main
begin

section \<open>The evaluation driver \<open>binaries/ted.cpp\<close>\<close>

text \<open>
  The file under verification is the command-line driver of the tolerant edit distance
  evaluation. It parses options, wires an \<open>ErrorReport\<close> process node to two image stacks
  and writes the report's outputs to the log and to files. The classes it drives
  (\<open>ErrorReport\<close>, \<open>TolerantEditDistanceErrors\<close>, the stack readers and writers, the option
  parser, Boost.Filesystem paths, the stream formatter of \<open>float\<close>) are not part of the file;
  each is a parameter of the model, collected in the record \<open>world\<close>.
\<close>

subsection \<open>Exceptions and observable effects\<close>

text \<open>
  The exceptions the driver names are \<open>pipeline::ProcessNode::NoSuchOutput\<close> (caught at
  line 234) and \<open>UsageError\<close> (thrown at line 140). Every other exception a collaborator
  raises is \<open>OtherException\<close> with its name. All of them are taken to derive from
  \<open>Exception\<close>, the type the handler of line 282 catches.
\<close>

datatype exn = NoSuchOutput | UsageError | OtherException string

text \<open>
  The \<open>std::ofstream\<close> variables of \<open>main\<close>: \<open>f\<close> (lines 189 and 275, here
  \<open>plotFile_f\<close>), \<open>splitFile\<close>,
  \<open>mergeFile\<close>, \<open>fpFile\<close> and \<open>fnFile\<close>. A stream constructed without a mode truncates
  the file; \<open>std::ofstream::app\<close> appends.
\<close>

datatype ofstream = plotFile_f | splitFile | mergeFile | fpFile | fnFile

datatype openmode = Trunc | App

text \<open>
  What a run does to the outside, in program order: the readers it runs, the stack
  directories it writes, the streams it opens, every \<open><<\<close> on a stream, the two log
  channels and the exception handler of line 284.
\<close>

datatype event =
    ReadHdf5 string string
  | ReadDirectory string
  | WriteDirectory string
  | Open ofstream string openmode
  | Put ofstream string
  | LogDebug string
  | LogUser string
  | HandleException exn

definition tab :: string where
  "tab = [CHR 0x09]"

definition endl :: string where
  "endl = [CHR 0x0A]"

subsection \<open>Collaborators\<close>

text \<open>
  A \<open>util::ProgramOption\<close> is read in three ways: in a boolean context (is the option
  set), through \<open>as<bool>()\<close>, and as a \<open>std::string\<close>.
\<close>

record ProgramOption =
  is_set :: bool
  as_bool :: bool
  as_string :: string

record options =
  optionGroundTruth :: ProgramOption
  optionExtractGroundTruthLabels :: ProgramOption
  optionExportGroundtruth :: ProgramOption
  optionReconstruction :: ProgramOption
  optionPlotFile :: ProgramOption
  optionPlotFileHeader :: ProgramOption
  optionTedErrorFiles :: ProgramOption
  optionReportVoi :: ProgramOption
  optionReportRand :: ProgramOption
  optionReportDetectionOverlap :: ProgramOption
  optionReportTed :: ProgramOption
  optionIgnoreBackground :: ProgramOption
  optionGrowSlices :: ProgramOption

record Parameters =
  headerOnly :: bool
  reportTed :: bool
  reportRand :: bool
  reportVoi :: bool
  reportDetectionOverlap :: bool
  ignoreBackground :: bool
  growSlices :: bool

text \<open>
  An \<open>ImageStack\<close> as the driver handles it: its sections in order and its resolution.
\<close>

record ('img, 'res) ImageStack =
  sections :: "'img list"
  resolution :: 'res

text \<open>
  \<open>TolerantEditDistanceErrors\<close> as \<open>main\<close> reads it (lines 249 to 269). The getters return
  \<open>std::set<float>\<close>, which \<open>foreach\<close> walks in ascending order; the model holds each set as
  the list of that walk.
\<close>

record 'l TolerantEditDistanceErrors =
  getSplitLabels :: "'l list"
  getSplits :: "'l \<Rightarrow> 'l list"
  getMergeLabels :: "'l list"
  getMerges :: "'l \<Rightarrow> 'l list"
  hasBackgroundLabel :: bool
  getFalsePositives :: "'l list"
  getFalseNegatives :: "'l list"

text \<open>
  The five outputs \<open>main\<close> requests of the \<open>ErrorReport\<close> node by name. Requesting one
  either raises or yields its value; a value that was handed out is read without failure
  where \<open>main\<close> dereferences it (lines 192, 241, 249 and 278).
\<close>

record ('img, 'res, 'l) outputs =
  error_report_header :: "exn + string"
  ted_corrected_reconstruction :: "exn + ('img, 'res) ImageStack"
  human_readable_error_report :: "exn + string"
  ted_errors :: "exn + 'l TolerantEditDistanceErrors"
  error_report :: "exn + string"

text \<open>
  The world outside the file. \<open>ErrorReport\<close> takes the parameters and the two inputs
  \<open>reconstruction\<close> and \<open>ground truth\<close>, each absent until \<open>setInput\<close> is called.
  \<open>empty_stack\<close> is a default-constructed \<open>ImageStack\<close>; \<open>path_stem\<close> and \<open>path_append\<close> are
  \<open>boost::filesystem::path::stem\<close> and \<open>operator/=\<close>; \<open>put_label\<close> is \<open>operator<<\<close> on a
  \<open>float\<close>.
\<close>

record ('img, 'res, 'l) world =
  HAVE_HDF5 :: bool
  readAndResize :: "string \<Rightarrow> string \<Rightarrow> exn + 'img list"
  readAttribute :: "string \<Rightarrow> string \<Rightarrow> 'res option"
  ImageStackDirectoryReader :: "string \<Rightarrow> exn + ('img, 'res) ImageStack"
  ExtractGroundTruthLabels :: "('img, 'res) ImageStack \<Rightarrow> exn + ('img, 'res) ImageStack"
  ImageStackDirectoryWriter :: "string \<Rightarrow> ('img, 'res) ImageStack \<Rightarrow> exn + unit"
  ErrorReport :: "Parameters \<Rightarrow> ('img, 'res) ImageStack option \<Rightarrow> ('img, 'res) ImageStack option
                  \<Rightarrow> ('img, 'res, 'l) outputs"
  empty_stack :: "('img, 'res) ImageStack"
  path_stem :: "string \<Rightarrow> string"
  path_append :: "string \<Rightarrow> string \<Rightarrow> string"
  put_label :: "'l \<Rightarrow> string"

subsection \<open>Sequencing with exceptions\<close>

text \<open>
  A block of the driver yields the events it caused and either an exception or a value.
\<close>

type_synonym 'a io = "event list \<times> (exn + 'a)"

definition io_return :: "'a \<Rightarrow> 'a io" where
  "io_return x = ([], Inr x)"

definition io_emit :: "event list \<Rightarrow> unit io" where
  "io_emit evs = (evs, Inr ())"

definition io_lift :: "exn + 'a \<Rightarrow> 'a io" where
  "io_lift r = ([], r)"

definition io_bind :: "'a io \<Rightarrow> ('a \<Rightarrow> 'b io) \<Rightarrow> 'b io" where
  "io_bind m k =
     (case m of
        (t, Inl e) \<Rightarrow> (t, Inl e)
      | (t, Inr a) \<Rightarrow> (case k a of (t', r) \<Rightarrow> (t @ t', r)))"

definition io_seq :: "unit io \<Rightarrow> 'b io \<Rightarrow> 'b io" where
  "io_seq m n = io_bind m (\<lambda>_. n)"

text \<open>The handler of line 234: \<open>NoSuchOutput\<close> ends the block normally, anything else passes.\<close>

definition catch_NoSuchOutput :: "unit io \<Rightarrow> unit io" where
  "catch_NoSuchOutput m =
     (case m of
        (t, Inl NoSuchOutput) \<Rightarrow> (t, Inr ())
      | (t, r) \<Rightarrow> (t, r))"

text \<open>The handler of line 282: the exception is printed and \<open>main\<close> ends.\<close>

definition catch_Exception :: "unit io \<Rightarrow> event list" where
  "catch_Exception m =
     (case m of
        (t, Inl e) \<Rightarrow> t @ [HandleException e]
      | (t, Inr _) \<Rightarrow> t)"

subsection \<open>Path helpers (lines 87 to 102)\<close>

definition buildCorrectedPath :: "('img, 'res, 'l) world \<Rightarrow> string \<Rightarrow> string \<Rightarrow> string" where
  "buildCorrectedPath w root reconstructionPath =
     (let folderName = ''corrected_'' @ path_stem w reconstructionPath
      in path_append w root folderName)"

definition buildReportPath ::
  "('img, 'res, 'l) world \<Rightarrow> string \<Rightarrow> string \<Rightarrow> string \<Rightarrow> string" where
  "buildReportPath w root reconstructionPath type =
     (let fileName = path_stem w reconstructionPath @ ''.'' @ type @ ''.data''
      in path_append w root fileName)"

subsection \<open>Reading a stack (lines 105 to 153)\<close>

text \<open>
  An option holding a colon names an HDF5 file and a dataset. With HDF5 support the stack
  is cleared, refilled with the sections of the dataset (\<open>readAndResize\<close> yields the volume
  as the list of its slices along the third axis, which the loop of line 121 adds one by
  one) and given the dataset's resolution if it has one; without, the call raises
  \<open>UsageError\<close>. Any other option names a directory of images.
\<close>

definition readImageStackFromOption ::
  "('img, 'res, 'l) world \<Rightarrow> ('img, 'res) ImageStack \<Rightarrow> string \<Rightarrow> ('img, 'res) ImageStack io" where
  "readImageStackFromOption w stack option =
     (if CHR '':'' \<in> set option then
        (if HAVE_HDF5 w then
           (let hdfFileName = takeWhile (\<lambda>c. c \<noteq> CHR '':'') option;
                dataset = tl (dropWhile (\<lambda>c. c \<noteq> CHR '':'') option)
            in io_seq (io_emit [ReadHdf5 hdfFileName dataset])
                 (io_bind (io_lift (readAndResize w hdfFileName dataset)) (\<lambda>volume.
                    io_return
                      (case readAttribute w hdfFileName dataset of
                         Some p \<Rightarrow> stack\<lparr>sections := volume, resolution := p\<rparr>
                       | None \<Rightarrow> stack\<lparr>sections := volume\<rparr>))))
         else io_lift (Inl UsageError))
      else io_seq (io_emit [ReadDirectory option])
             (io_lift (ImageStackDirectoryReader w option)))"

subsection \<open>The listings (lines 248 to 270)\<close>

definition split_events :: "('l \<Rightarrow> string) \<Rightarrow> 'l TolerantEditDistanceErrors \<Rightarrow> event list" where
  "split_events put errors =
     concat (map (\<lambda>gtLabel.
         [Put splitFile (put gtLabel), Put splitFile tab]
         @ concat (map (\<lambda>recLabel. [Put splitFile (put recLabel), Put splitFile tab])
                     (getSplits errors gtLabel))
         @ [Put splitFile endl])
       (getSplitLabels errors))"

definition merge_events :: "('l \<Rightarrow> string) \<Rightarrow> 'l TolerantEditDistanceErrors \<Rightarrow> event list" where
  "merge_events put errors =
     concat (map (\<lambda>recLabel.
         [Put mergeFile (put recLabel), Put mergeFile tab]
         @ concat (map (\<lambda>gtLabel. [Put mergeFile (put gtLabel), Put mergeFile tab])
                     (getMerges errors recLabel))
         @ [Put mergeFile endl])
       (getMergeLabels errors))"

definition fp_events :: "('l \<Rightarrow> string) \<Rightarrow> 'l TolerantEditDistanceErrors \<Rightarrow> event list" where
  "fp_events put errors =
     concat (map (\<lambda>recLabel. [Put fpFile (put recLabel), Put fpFile endl])
       (getFalsePositives errors))"

definition fn_events :: "('l \<Rightarrow> string) \<Rightarrow> 'l TolerantEditDistanceErrors \<Rightarrow> event list" where
  "fn_events put errors =
     concat (map (\<lambda>gtLabel. [Put fnFile (put gtLabel), Put fnFile endl])
       (getFalseNegatives errors))"

definition write_error_files ::
  "options \<Rightarrow> ('img, 'res, 'l) world \<Rightarrow> 'l TolerantEditDistanceErrors \<Rightarrow> event list" where
  "write_error_files opts w errors =
     (let root = as_string (optionTedErrorFiles opts);
          rec = as_string (optionReconstruction opts)
      in [Open splitFile (buildReportPath w root rec ''splits'') Trunc]
         @ split_events (put_label w) errors
         @ [Open mergeFile (buildReportPath w root rec ''merges'') Trunc]
         @ merge_events (put_label w) errors
         @ (if hasBackgroundLabel errors then
              [Open fpFile (buildReportPath w root rec ''fps'') Trunc]
              @ fp_events (put_label w) errors
              @ [Open fnFile (buildReportPath w root rec ''fns'') Trunc]
              @ fn_events (put_label w) errors
            else []))"

subsection \<open>\<open>main\<close> (lines 155 to 286)\<close>

text \<open>
  The model starts where the options are parsed and the logger is set up (lines 164 to
  168). \<open>main\<close> returns 0 from the header run and falls off its end otherwise, also after
  the handler of line 284, so the trace is all that tells one run from another.
\<close>

definition parameters_of :: "options \<Rightarrow> Parameters" where
  "parameters_of opts =
     \<lparr> headerOnly = as_bool (optionPlotFileHeader opts),
       reportTed = as_bool (optionReportTed opts),
       reportRand = as_bool (optionReportRand opts),
       reportVoi = as_bool (optionReportVoi opts),
       reportDetectionOverlap = as_bool (optionReportDetectionOverlap opts),
       ignoreBackground = as_bool (optionIgnoreBackground opts),
       growSlices = as_bool (optionGrowSlices opts) \<rparr>"

text \<open>Lines 187 to 194: the header run, which returns from \<open>main\<close>.\<close>

definition header_run :: "options \<Rightarrow> ('img, 'res, 'l) world \<Rightarrow> unit io" where
  "header_run opts w =
     io_seq (io_emit [Open plotFile_f (as_string (optionPlotFile opts)) App])
       (io_bind (io_lift (error_report_header (ErrorReport w (parameters_of opts) None None)))
          (\<lambda>reportText. io_emit [Put plotFile_f reportText, Put plotFile_f endl]))"

text \<open>
  Lines 206 to 224: the stack that becomes the report's \<open>ground truth\<close> input. The
  extraction node is evaluated where it is wired; the pipeline evaluates it at the first
  request downstream, and no event lies between the two places.
\<close>

definition ground_truth_input ::
  "options \<Rightarrow> ('img, 'res, 'l) world \<Rightarrow> ('img, 'res) ImageStack \<Rightarrow> ('img, 'res) ImageStack io" where
  "ground_truth_input opts w groundTruth =
     (if is_set (optionExtractGroundTruthLabels opts) then
        io_seq
          (io_emit [LogDebug ''[main] extracting ground truth labels from connected components'',
                    LogDebug endl])
          (io_bind (io_lift (ExtractGroundTruthLabels w groundTruth)) (\<lambda>labels.
             io_seq
               (if is_set (optionExportGroundtruth opts) then
                  io_seq (io_lift (ImageStackDirectoryWriter w ''groundtruth'' labels))
                    (io_emit [WriteDirectory ''groundtruth''])
                else io_return ())
               (io_return labels)))
      else io_return groundTruth)"

text \<open>Lines 226 to 237: the attempt to save the corrected reconstruction.\<close>

definition save_corrected_reconstruction ::
  "options \<Rightarrow> ('img, 'res, 'l) world \<Rightarrow> ('img, 'res, 'l) outputs \<Rightarrow> unit io" where
  "save_corrected_reconstruction opts w report =
     catch_NoSuchOutput
       (let dir = buildCorrectedPath w (as_string (optionTedErrorFiles opts))
                    (as_string (optionReconstruction opts))
        in io_bind (io_lift (ted_corrected_reconstruction report)) (\<lambda>corrected.
             io_seq (io_lift (ImageStackDirectoryWriter w dir corrected))
               (io_emit [WriteDirectory dir])))"

text \<open>
  Lines 239 to 280: the three reports. Lines 243 to 271 are \<open>write_error_listings\<close>,
  lines 273 to 280 are \<open>write_plot_line\<close>.
\<close>

definition write_plot_line ::
  "options \<Rightarrow> ('img, 'res, 'l) outputs \<Rightarrow> unit io" where
  "write_plot_line opts report =
     (if is_set (optionPlotFile opts) then
        io_seq (io_emit [Open plotFile_f (as_string (optionPlotFile opts)) App])
          (io_bind (io_lift (error_report report)) (\<lambda>reportText.
             io_emit [Put plotFile_f reportText, Put plotFile_f endl]))
      else io_return ())"

definition write_error_listings ::
  "options \<Rightarrow> ('img, 'res, 'l) world \<Rightarrow> ('img, 'res, 'l) outputs \<Rightarrow> unit io" where
  "write_error_listings opts w report =
     (if is_set (optionTedErrorFiles opts) then
        io_bind (io_lift (ted_errors report)) (\<lambda>errors.
          io_emit (write_error_files opts w errors))
      else io_return ())"

definition write_error_report ::
  "options \<Rightarrow> ('img, 'res, 'l) world \<Rightarrow> ('img, 'res, 'l) outputs \<Rightarrow> unit io" where
  "write_error_report opts w report =
     io_bind (io_lift (human_readable_error_report report)) (\<lambda>reportText.
     io_seq (io_emit [LogUser reportText, LogUser endl])
    (io_seq (write_error_listings opts w report)
       (write_plot_line opts report)))"

text \<open>
  Lines 196 to 224: both stacks are read and wired to the report node, whose outputs
  from then on are those of \<open>ErrorReport\<close> on these two inputs.
\<close>

definition setup_report ::
  "options \<Rightarrow> ('img, 'res, 'l) world \<Rightarrow> ('img, 'res, 'l) outputs io" where
  "setup_report opts w =
     io_bind (readImageStackFromOption w (empty_stack w) (as_string (optionGroundTruth opts)))
       (\<lambda>groundTruth.
     io_bind (readImageStackFromOption w (empty_stack w) (as_string (optionReconstruction opts)))
       (\<lambda>reconstruction.
     io_bind (ground_truth_input opts w groundTruth)
       (\<lambda>gt.
     io_return (ErrorReport w (parameters_of opts) (Some reconstruction) (Some gt)))))"

definition evaluation_run :: "options \<Rightarrow> ('img, 'res, 'l) world \<Rightarrow> unit io" where
  "evaluation_run opts w =
     io_bind (setup_report opts w) (\<lambda>report.
       io_seq (save_corrected_reconstruction opts w report)
         (write_error_report opts w report))"

definition main :: "options \<Rightarrow> ('img, 'res, 'l) world \<Rightarrow> event list" where
  "main opts w =
     catch_Exception
       (if is_set (optionPlotFileHeader opts) then header_run opts w
        else evaluation_run opts w)"

subsection \<open>Reading a trace\<close>

text \<open>The events on one stream, and the text a run has put to it.\<close>

fun on_stream :: "ofstream \<Rightarrow> event \<Rightarrow> bool" where
  "on_stream s (Open s' p m) = (s' = s)"
| "on_stream s (Put s' t) = (s' = s)"
| "on_stream s e = False"

fun put_text :: "ofstream \<Rightarrow> event \<Rightarrow> string" where
  "put_text s (Put s' t) = (if s' = s then t else [])"
| "put_text s e = []"

definition stream_text :: "ofstream \<Rightarrow> event list \<Rightarrow> string" where
  "stream_text s evs = concat (map (put_text s) evs)"

text \<open>
  The listing format in the words of the interface description: fields separated by
  tabs.
\<close>

fun tab_separated :: "string list \<Rightarrow> string" where
  "tab_separated [] = []"
| "tab_separated [x] = x"
| "tab_separated (x # y # ys) = x @ tab @ tab_separated (y # ys)"

subsection \<open>Output streams on a file system\<close>





subsection \<open>Replacing the false positives and negatives\<close>

text \<open>
  The same world, except that every \<open>TolerantEditDistanceErrors\<close> without a background
  label that the report node hands out has its false positives and false negatives
  replaced by the given ones.
\<close>

definition overwrite_fp_fn ::
  "'l list \<Rightarrow> 'l list \<Rightarrow> ('img, 'res, 'l) world \<Rightarrow> ('img, 'res, 'l) world" where
  "overwrite_fp_fn fps fns w =
     w\<lparr>ErrorReport := (\<lambda>parameters reconstruction groundTruth.
        (let report = ErrorReport w parameters reconstruction groundTruth
         in report\<lparr>ted_errors :=
              (case ted_errors report of
                 Inl e \<Rightarrow> Inl e
               | Inr errors \<Rightarrow>
                   Inr (if hasBackgroundLabel errors then errors
                        else errors\<lparr>getFalsePositives := fps, getFalseNegatives := fns\<rparr>))\<rparr>))\<rparr>"

subsection \<open>The dimension precondition of the report node\<close>

text \<open>
  Modelled from the spec: the check of the volume dimensions, which is made inside
  \<open>ErrorReport\<close> and is not in \<open>ted.cpp\<close>. The interface description says of the
  correspondence builder that a dimension mismatch between ground truth and reconstruction
  is a fatal precondition violation that signals \<open>ShapeMismatch\<close>, and of the error
  handling that such a violation propagates to the caller immediately and stops all further
  processing of that volume pair, while an output that the configuration never produces
  stays a missing output. \<open>ShapeMismatch\<close> is the exception of that name.
\<close>

definition ShapeMismatch :: exn where
  "ShapeMismatch = OtherException ''ShapeMismatch''"

text \<open>
  Modelled from the spec: an output requested of a report node whose two volumes differ
  in dimensions. A missing output stays missing; any other request raises
  \<open>ShapeMismatch\<close>.
\<close>

definition violated :: "exn + 'a \<Rightarrow> exn + 'a" where
  "violated out = (case out of Inl NoSuchOutput \<Rightarrow> Inl NoSuchOutput | _ \<Rightarrow> Inl ShapeMismatch)"

text \<open>
  Modelled from the spec: a report node that checks the dimensions of its two inputs
  before it does anything with them. \<open>dimensions\<close> gives width, height and depth of a
  stack; \<open>core\<close> is the rest of the node (correspondence, classification, correction and
  rendering), which the check runs only on volumes of equal dimensions. The two text reports
  are always outputs of the node; the corrected reconstruction and the error structure
  may be missing, which is a matter of the configuration and is asked of the node without
  inputs. The header needs no volume. In the case of a mismatch no output depends on
  \<open>core\<close> applied to the two volumes.
\<close>

definition precondition_checked ::
  "(('img, 'res) ImageStack \<Rightarrow> nat \<times> nat \<times> nat) \<Rightarrow>
   (Parameters \<Rightarrow> ('img, 'res) ImageStack option \<Rightarrow> ('img, 'res) ImageStack option
      \<Rightarrow> ('img, 'res, 'l) outputs) \<Rightarrow>
   Parameters \<Rightarrow> ('img, 'res) ImageStack option \<Rightarrow> ('img, 'res) ImageStack option
      \<Rightarrow> ('img, 'res, 'l) outputs" where
  "precondition_checked dimensions core parameters reconstruction groundTruth =
     (case (reconstruction, groundTruth) of
        (Some r, Some g) \<Rightarrow>
          (if dimensions g = dimensions r then core parameters reconstruction groundTruth
           else
             \<lparr> error_report_header =
                 error_report_header (core parameters None None),
               ted_corrected_reconstruction =
                 violated (ted_corrected_reconstruction (core parameters None None)),
               human_readable_error_report = Inl ShapeMismatch,
               ted_errors = violated (ted_errors (core parameters None None)),
               error_report = Inl ShapeMismatch \<rparr>)
      | _ \<Rightarrow> core parameters reconstruction groundTruth)"

subsection \<open>False positives and false negatives of the classifier\<close>

text \<open>
  Modelled from the spec: the test by which the classifier, which is not in \<open>ted.cpp\<close>,
  makes a region a false positive or a false negative. The interface description says
  that a ground-truth region whose only substantial reconstruction overlap is the
  background label becomes a false negative, and a reconstruction region whose only
  substantial ground-truth overlap is background becomes a false positive. \<open>background\<close>
  is the background label if there is one; \<open>partners\<close> are the labels of the other side
  that the region overlaps substantially.
\<close>

definition only_background :: "'l option \<Rightarrow> 'l list \<Rightarrow> bool" where
  "only_background background partners =
     (case background of
        None \<Rightarrow> False
      | Some b \<Rightarrow> partners \<noteq> [] \<and> list_all (\<lambda>p. p = b) partners)"

text \<open>
  Modelled from the spec: the \<open>TolerantEditDistanceErrors\<close> the classifier hands out, as
  far as the background is concerned. The flag says whether a background label is
  present; the false positives are the reconstruction labels, and the false negatives
  the ground-truth labels, that overlap only background. \<open>gt_labels\<close> and \<open>rec_labels\<close> are
  the foreground labels of the two volumes, \<open>rec_partners\<close> and \<open>gt_partners\<close> give a
  label's overlap partners on the other side, and \<open>splits_and_merges\<close> holds the splits
  and merges, which this part of the classifier leaves as they are.
\<close>

definition classified_errors ::
  "'l option \<Rightarrow> ('l \<Rightarrow> 'l list) \<Rightarrow> ('l \<Rightarrow> 'l list) \<Rightarrow> 'l list \<Rightarrow> 'l list \<Rightarrow>
   'l TolerantEditDistanceErrors \<Rightarrow> 'l TolerantEditDistanceErrors" where
  "classified_errors background rec_partners gt_partners gt_labels rec_labels splits_and_merges =
     splits_and_merges
       \<lparr> hasBackgroundLabel := (background \<noteq> None),
         getFalsePositives := filter (\<lambda>r. only_background background (gt_partners r)) rec_labels,
         getFalseNegatives := filter (\<lambda>g. only_background background (rec_partners g)) gt_labels \<rparr>"

subsection \<open>A concrete run\<close>

text \<open>
  The split scenario of the interface description: ground-truth label 1 is split into the
  reconstruction labels 1 and 2, and reconstruction label 3 is a false positive. Images,
  resolutions and labels are numbers here; the stacks are read from directories, paths
  are joined with a slash, and the corrected reconstruction is produced or not.
\<close>

definition scenario_option :: "bool \<Rightarrow> string \<Rightarrow> ProgramOption" where
  "scenario_option b s = \<lparr> is_set = b, as_bool = b, as_string = s \<rparr>"

definition scenario_options :: "bool \<Rightarrow> options" where
  "scenario_options header =
     \<lparr> optionGroundTruth = scenario_option True ''groundtruth'',
       optionExtractGroundTruthLabels = scenario_option False [],
       optionExportGroundtruth = scenario_option False [],
       optionReconstruction = scenario_option True ''rec'',
       optionPlotFile = scenario_option True ''plot'',
       optionPlotFileHeader = scenario_option header [],
       optionTedErrorFiles = scenario_option True ''out'',
       optionReportVoi = scenario_option False [],
       optionReportRand = scenario_option False [],
       optionReportDetectionOverlap = scenario_option True [],
       optionReportTed = scenario_option True [],
       optionIgnoreBackground = scenario_option False [],
       optionGrowSlices = scenario_option False [] \<rparr>"

definition scenario_errors :: "bool \<Rightarrow> nat TolerantEditDistanceErrors" where
  "scenario_errors background =
     \<lparr> getSplitLabels = [1],
       getSplits = (\<lambda>gtLabel. if gtLabel = 1 then [1, 2] else []),
       getMergeLabels = [],
       getMerges = (\<lambda>recLabel. []),
       hasBackgroundLabel = background,
       getFalsePositives = [3],
       getFalseNegatives = [] \<rparr>"

definition scenario_stack :: "nat \<Rightarrow> (nat, nat) ImageStack" where
  "scenario_stack depth = \<lparr> sections = replicate depth 0, resolution = 1 \<rparr>"

definition scenario_outputs :: "bool \<Rightarrow> bool \<Rightarrow> (nat, nat, nat) outputs" where
  "scenario_outputs corrected background =
     \<lparr> error_report_header = Inr ''TED_FS'',
       ted_corrected_reconstruction =
         (if corrected then Inr (scenario_stack 1) else Inl NoSuchOutput),
       human_readable_error_report = Inr ''TED FS: 1'',
       ted_errors = Inr (scenario_errors background),
       error_report = Inr ''1'' \<rparr>"

definition scenario_put :: "nat \<Rightarrow> string" where
  "scenario_put l = (if l = 1 then ''1'' else if l = 2 then ''2'' else ''3'')"

definition scenario_world :: "bool \<Rightarrow> bool \<Rightarrow> (nat, nat, nat) world" where
  "scenario_world corrected background =
     \<lparr> HAVE_HDF5 = False,
       readAndResize = (\<lambda>file dataset. Inl (OtherException ''HDF5'')),
       readAttribute = (\<lambda>file dataset. None),
       ImageStackDirectoryReader = (\<lambda>dir. Inr (scenario_stack 1)),
       ExtractGroundTruthLabels = (\<lambda>stack. Inr stack),
       ImageStackDirectoryWriter = (\<lambda>dir stack. Inr ()),
       ErrorReport = (\<lambda>parameters reconstruction groundTruth.
         scenario_outputs corrected background),
       empty_stack = scenario_stack 0,
       path_stem = (\<lambda>p. p),
       path_append = (\<lambda>root name. root @ ''/'' @ name),
       put_label = scenario_put \<rparr>"

text \<open>
  The same world with a report node that checks dimensions, and with a reader that
  yields a stack as deep as the directory's name is long, so that \<open>groundtruth\<close> and
  \<open>rec\<close> differ in depth.
\<close>

definition scenario_dimensions :: "(nat, nat) ImageStack \<Rightarrow> nat \<times> nat \<times> nat" where
  "scenario_dimensions stack = (4, 4, length (sections stack))"

definition mismatch_world :: "(nat, nat, nat) world" where
  "mismatch_world =
     (scenario_world True True)
       \<lparr> ImageStackDirectoryReader := (\<lambda>dir. Inr (scenario_stack (length dir))),
         ErrorReport := precondition_checked scenario_dimensions
           (\<lambda>parameters reconstruction groundTruth. scenario_outputs True True) \<rparr>"


text \<open>
  A structure with a split, a merge, a false positive and a false negative, and a world
  that hands it out.
\<close>

definition listing_errors :: "nat TolerantEditDistanceErrors" where
  "listing_errors =
     \<lparr> getSplitLabels = [1],
       getSplits = (\<lambda>gtLabel. if gtLabel = 1 then [1, 2] else []),
       getMergeLabels = [4],
       getMerges = (\<lambda>recLabel. if recLabel = 4 then [5, 6] else []),
       hasBackgroundLabel = True,
       getFalsePositives = [3],
       getFalseNegatives = [7] \<rparr>"

definition listing_put :: "nat \<Rightarrow> string" where
  "listing_put l =
     (if l = 1 then ''1'' else if l = 2 then ''2'' else if l = 3 then ''3''
      else if l = 4 then ''4'' else if l = 5 then ''5'' else if l = 6 then ''6'' else ''7'')"

definition listing_outputs :: "(nat, nat, nat) outputs" where
  "listing_outputs = (scenario_outputs True True)\<lparr> ted_errors := Inr listing_errors \<rparr>"

definition listing_world :: "(nat, nat, nat) world" where
  "listing_world =
     (scenario_world True True)
       \<lparr> ErrorReport := (\<lambda>parameters reconstruction groundTruth. listing_outputs),
         put_label := listing_put \<rparr>"




text \<open>
  The classifier's structure for ground-truth label 1, which overlaps the reconstruction
  labels 1 and 2, ground-truth label 4 and reconstruction label 3, which overlap only the
  background 0.
\<close>

definition classified_scenario :: "nat TolerantEditDistanceErrors" where
  "classified_scenario =
     classified_errors (Some 0)
       (\<lambda>gtLabel. if gtLabel = 4 then [0] else [1, 2])
       (\<lambda>recLabel. if recLabel = 3 then [0] else [1])
       [1, 4] [1, 2, 3] (scenario_errors False)"

section \<open>Properties of the driver\<close>

lemmas io_defs = io_return_def io_emit_def io_lift_def io_bind_def io_seq_def
  catch_NoSuchOutput_def catch_Exception_def

lemmas scenario_defs = scenario_option_def scenario_options_def scenario_errors_def
  scenario_stack_def scenario_outputs_def scenario_put_def scenario_world_def

subsection \<open>Streams a block leaves alone\<close>

text \<open>
  A block is quiet on a stream when none of its events is on that stream. Reading,
  wiring and saving the corrected reconstruction are quiet on every stream; each listing
  is quiet on all streams but its own.
\<close>

lemma io_bind_fst:
  "fst (io_bind m k) = fst m @ (case snd m of Inl e \<Rightarrow> [] | Inr a \<Rightarrow> fst (k a))"
  by (cases m) (auto simp: io_bind_def split: sum.splits prod.splits)

lemma quiet_bind:
  assumes "filter P (fst m) = []" and "\<And>a. filter P (fst (k a)) = []"
  shows "filter P (fst (io_bind m k)) = []"
  using assms by (simp add: io_bind_fst split: sum.splits)

lemma quiet_seq:
  assumes "filter P (fst m) = []" and "filter P (fst n) = []"
  shows "filter P (fst (io_seq m n)) = []"
  unfolding io_seq_def using assms by (intro quiet_bind) simp_all

lemma quiet_lift [simp]: "filter P (fst (io_lift r)) = []"
  by (simp add: io_lift_def)

lemma quiet_return [simp]: "filter P (fst (io_return x)) = []"
  by (simp add: io_return_def)

lemma fst_emit [simp]: "fst (io_emit evs) = evs"
  by (simp add: io_emit_def)

lemma quiet_catch_NoSuchOutput:
  "filter P (fst m) = [] \<Longrightarrow> filter P (fst (catch_NoSuchOutput m)) = []"
  by (cases m) (auto simp: catch_NoSuchOutput_def split: sum.splits exn.splits)

lemma quiet_read:
  "filter (on_stream s) (fst (readImageStackFromOption w stack option)) = []"
  unfolding readImageStackFromOption_def Let_def
  by (auto intro!: quiet_seq quiet_bind)

lemma quiet_ground_truth_input:
  "filter (on_stream s) (fst (ground_truth_input opts w groundTruth)) = []"
  unfolding ground_truth_input_def
  by (auto intro!: quiet_seq quiet_bind)

lemma quiet_setup_report:
  "filter (on_stream s) (fst (setup_report opts w)) = []"
  unfolding setup_report_def
  by (intro quiet_bind quiet_read quiet_ground_truth_input quiet_return)

lemma quiet_save_corrected:
  "filter (on_stream s) (fst (save_corrected_reconstruction opts w report)) = []"
  unfolding save_corrected_reconstruction_def Let_def
  by (intro quiet_catch_NoSuchOutput quiet_bind quiet_seq) simp_all

lemma on_stream_split_events:
  "e \<in> set (split_events put errors) \<Longrightarrow> on_stream s e = (s = splitFile)"
  by (auto simp: split_events_def)

lemma on_stream_merge_events:
  "e \<in> set (merge_events put errors) \<Longrightarrow> on_stream s e = (s = mergeFile)"
  by (auto simp: merge_events_def)

lemma on_stream_fp_events:
  "e \<in> set (fp_events put errors) \<Longrightarrow> on_stream s e = (s = fpFile)"
  by (auto simp: fp_events_def)

lemma on_stream_fn_events:
  "e \<in> set (fn_events put errors) \<Longrightarrow> on_stream s e = (s = fnFile)"
  by (auto simp: fn_events_def)

lemma quiet_listing_events:
  "s \<noteq> splitFile \<Longrightarrow> filter (on_stream s) (split_events put errors) = []"
  "s \<noteq> mergeFile \<Longrightarrow> filter (on_stream s) (merge_events put errors) = []"
  "s \<noteq> fpFile \<Longrightarrow> filter (on_stream s) (fp_events put errors) = []"
  "s \<noteq> fnFile \<Longrightarrow> filter (on_stream s) (fn_events put errors) = []"
  by (simp_all add: filter_empty_conv on_stream_split_events on_stream_merge_events
      on_stream_fp_events on_stream_fn_events)



subsection \<open>The text put to a stream\<close>

lemma stream_text_append [simp]:
  "stream_text s (xs @ ys) = stream_text s xs @ stream_text s ys"
  by (simp add: stream_text_def)

lemma stream_text_Nil [simp]: "stream_text s [] = []"
  by (simp add: stream_text_def)

lemma stream_text_Cons [simp]: "stream_text s (e # es) = put_text s e @ stream_text s es"
  by (simp add: stream_text_def)

lemma put_text_off_stream: "\<not> on_stream s e \<Longrightarrow> put_text s e = []"
  by (cases e) auto

lemma stream_text_quiet: "filter (on_stream s) t = [] \<Longrightarrow> stream_text s t = []"
  by (induction t) (auto simp: put_text_off_stream split: if_splits)

lemma tab_separated_Cons_tab:
  "tab_separated (x # ys) @ tab = x @ tab @ concat (map (\<lambda>y. y @ tab) ys)"
  by (induction ys arbitrary: x) simp_all

lemma stream_text_labels:
  "stream_text s (concat (map (\<lambda>l. [Put s (put l), Put s tab]) ls)) =
     concat (map (\<lambda>y. y @ tab) (map put ls))"
  by (induction ls) simp_all

lemma stream_text_split_events:
  "stream_text splitFile (split_events put errors) =
     concat (map (\<lambda>gtLabel.
        tab_separated (map put (gtLabel # getSplits errors gtLabel)) @ tab @ endl)
       (getSplitLabels errors))"
proof -
  have "stream_text splitFile (concat (map (\<lambda>g.
       [Put splitFile (put g), Put splitFile tab]
       @ concat (map (\<lambda>r. [Put splitFile (put r), Put splitFile tab]) (rs g))
       @ [Put splitFile endl]) gs)) =
     concat (map (\<lambda>g. tab_separated (map put (g # rs g)) @ tab @ endl) gs)" for rs gs
    by (induction gs) (simp_all add: stream_text_labels tab_separated_Cons_tab)
  then show ?thesis by (simp add: split_events_def)
qed

lemma stream_text_merge_events:
  "stream_text mergeFile (merge_events put errors) =
     concat (map (\<lambda>recLabel.
        tab_separated (map put (recLabel # getMerges errors recLabel)) @ tab @ endl)
       (getMergeLabels errors))"
proof -
  have "stream_text mergeFile (concat (map (\<lambda>g.
       [Put mergeFile (put g), Put mergeFile tab]
       @ concat (map (\<lambda>r. [Put mergeFile (put r), Put mergeFile tab]) (rs g))
       @ [Put mergeFile endl]) gs)) =
     concat (map (\<lambda>g. tab_separated (map put (g # rs g)) @ tab @ endl) gs)" for rs gs
    by (induction gs) (simp_all add: stream_text_labels tab_separated_Cons_tab)
  then show ?thesis by (simp add: merge_events_def)
qed

lemma stream_text_fp_events:
  "stream_text fpFile (fp_events put errors) =
     concat (map (\<lambda>recLabel. put recLabel @ endl) (getFalsePositives errors))"
proof -
  have "stream_text fpFile (concat (map (\<lambda>l. [Put fpFile (put l), Put fpFile endl]) ls)) =
     concat (map (\<lambda>l. put l @ endl) ls)" for ls
    by (induction ls) simp_all
  then show ?thesis by (simp add: fp_events_def)
qed

lemma stream_text_fn_events:
  "stream_text fnFile (fn_events put errors) =
     concat (map (\<lambda>gtLabel. put gtLabel @ endl) (getFalseNegatives errors))"
proof -
  have "stream_text fnFile (concat (map (\<lambda>l. [Put fnFile (put l), Put fnFile endl]) ls)) =
     concat (map (\<lambda>l. put l @ endl) ls)" for ls
    by (induction ls) simp_all
  then show ?thesis by (simp add: fn_events_def)
qed

lemma stream_text_write_error_files:
  "stream_text splitFile (write_error_files opts w errors) =
     concat (map (\<lambda>gtLabel.
        tab_separated (map (put_label w) (gtLabel # getSplits errors gtLabel)) @ tab @ endl)
       (getSplitLabels errors))"
  "stream_text mergeFile (write_error_files opts w errors) =
     concat (map (\<lambda>recLabel.
        tab_separated (map (put_label w) (recLabel # getMerges errors recLabel)) @ tab @ endl)
       (getMergeLabels errors))"
  "stream_text fpFile (write_error_files opts w errors) =
     (if hasBackgroundLabel errors
      then concat (map (\<lambda>recLabel. put_label w recLabel @ endl) (getFalsePositives errors))
      else [])"
  "stream_text fnFile (write_error_files opts w errors) =
     (if hasBackgroundLabel errors
      then concat (map (\<lambda>gtLabel. put_label w gtLabel @ endl) (getFalseNegatives errors))
      else [])"
  by (simp_all add: write_error_files_def Let_def stream_text_split_events
      stream_text_merge_events stream_text_fp_events stream_text_fn_events
      stream_text_quiet quiet_listing_events)

subsection \<open>The shape of a run\<close>

text \<open>
  The trace of \<open>main\<close>, block by block: each block either raises, which ends the run in
  the handler of line 284, or hands over to the next.
\<close>

lemma plot_line_shape:
  "catch_Exception (write_plot_line opts report) =
     (if is_set (optionPlotFile opts) then
        Open plotFile_f (as_string (optionPlotFile opts)) App #
        (case error_report report of
           Inl e \<Rightarrow> [HandleException e]
         | Inr reportText \<Rightarrow> [Put plotFile_f reportText, Put plotFile_f endl])
      else [])"
  by (simp add: write_plot_line_def io_defs split: sum.splits)

lemma error_report_shape:
  "catch_Exception (write_error_report opts w report) =
     (case human_readable_error_report report of
        Inl e \<Rightarrow> [HandleException e]
      | Inr h \<Rightarrow>
          [LogUser h, LogUser endl] @
          (if is_set (optionTedErrorFiles opts) then
             (case ted_errors report of
                Inl e \<Rightarrow> [HandleException e]
              | Inr errors \<Rightarrow>
                  write_error_files opts w errors
                  @ catch_Exception (write_plot_line opts report))
           else catch_Exception (write_plot_line opts report)))"
  by (cases "write_plot_line opts report")
     (simp add: write_error_report_def write_error_listings_def io_defs split: sum.splits)

lemma main_shape:
  "main opts w =
     (if is_set (optionPlotFileHeader opts) then catch_Exception (header_run opts w)
      else
        (case setup_report opts w of
           (t0, Inl e) \<Rightarrow> t0 @ [HandleException e]
         | (t0, Inr report) \<Rightarrow>
             (case save_corrected_reconstruction opts w report of
                (t1, Inl e) \<Rightarrow> t0 @ t1 @ [HandleException e]
              | (t1, Inr u) \<Rightarrow> t0 @ t1 @ catch_Exception (write_error_report opts w report))))"
proof (cases "is_set (optionPlotFileHeader opts)")
  case True
  then show ?thesis by (simp add: main_def)
next
  case False
  obtain t0 r0 where s: "setup_report opts w = (t0, r0)" by (cases "setup_report opts w")
  show ?thesis
  proof (cases r0)
    case (Inl e)
    with False s show ?thesis by (simp add: main_def evaluation_run_def io_defs)
  next
    case (Inr report)
    obtain t1 r1 where c: "save_corrected_reconstruction opts w report = (t1, r1)"
      by (cases "save_corrected_reconstruction opts w report")
    obtain t2 r2 where r: "write_error_report opts w report = (t2, r2)"
      by (cases "write_error_report opts w report")
    from False s Inr c r show ?thesis
      by (cases r1; cases r2)
         (simp_all add: main_def evaluation_run_def io_bind_def io_seq_def catch_Exception_def)
  qed
qed

lemma main_reaches_listing:
  assumes "\<not> is_set (optionPlotFileHeader opts)"
    and "setup_report opts w = (t0, Inr report)"
    and "save_corrected_reconstruction opts w report = (t1, Inr ())"
    and "human_readable_error_report report = Inr h"
    and "is_set (optionTedErrorFiles opts)"
    and "ted_errors report = Inr errors"
  shows "main opts w =
     t0 @ t1 @ [LogUser h, LogUser endl] @ write_error_files opts w errors
     @ catch_Exception (write_plot_line opts report)"
  using assms
  by (cases "write_plot_line opts report")
     (simp add: main_def evaluation_run_def write_error_report_def write_error_listings_def
        io_return_def io_emit_def io_lift_def io_bind_def io_seq_def catch_Exception_def
        split: sum.splits)

lemma quiet_header_run:
  "s \<noteq> plotFile_f \<Longrightarrow> filter (on_stream s) (catch_Exception (header_run opts w)) = []"
  by (simp add: header_run_def io_defs split: sum.splits)

lemma quiet_plot_line:
  "s \<noteq> plotFile_f \<Longrightarrow> filter (on_stream s) (catch_Exception (write_plot_line opts report)) = []"
  by (simp add: plot_line_shape split: sum.splits)

lemma stream_text_plot_line:
  "s \<noteq> plotFile_f \<Longrightarrow> stream_text s (catch_Exception (write_plot_line opts report)) = []"
  by (simp add: write_plot_line_def io_return_def io_emit_def io_lift_def io_bind_def
      io_seq_def catch_Exception_def split: sum.splits)


subsection \<open>Streams and files\<close>





subsection \<open>The concrete run, evaluated\<close>

lemma scenario_setup_report:
  "setup_report (scenario_options False) (scenario_world c b) =
     ([ReadDirectory ''groundtruth'', ReadDirectory ''rec''], Inr (scenario_outputs c b))"
  by (simp add: setup_report_def readImageStackFromOption_def ground_truth_input_def
      io_defs scenario_options_def scenario_option_def scenario_world_def)

lemma scenario_save_corrected:
  "save_corrected_reconstruction (scenario_options False) (scenario_world True b)
     (scenario_outputs True b) = ([WriteDirectory ''out/corrected_rec''], Inr ())"
  by (simp add: save_corrected_reconstruction_def buildCorrectedPath_def io_defs scenario_defs)

lemma scenario_main:
  "main (scenario_options False) (scenario_world True True) =
     [ReadDirectory ''groundtruth'', ReadDirectory ''rec'',
      WriteDirectory ''out/corrected_rec'',
      LogUser ''TED FS: 1'', LogUser endl,
      Open splitFile ''out/rec.splits.data'' Trunc,
      Put splitFile ''1'', Put splitFile tab, Put splitFile ''1'', Put splitFile tab,
      Put splitFile ''2'', Put splitFile tab, Put splitFile endl,
      Open mergeFile ''out/rec.merges.data'' Trunc,
      Open fpFile ''out/rec.fps.data'' Trunc, Put fpFile ''3'', Put fpFile endl,
      Open fnFile ''out/rec.fns.data'' Trunc,
      Open plotFile_f ''plot'' App, Put plotFile_f ''1'', Put plotFile_f endl]"
proof -
  have "\<not> is_set (optionPlotFileHeader (scenario_options False))"
    by (simp add: scenario_defs)
  then have "main (scenario_options False) (scenario_world True True) =
      [ReadDirectory ''groundtruth'', ReadDirectory ''rec'', WriteDirectory ''out/corrected_rec'']
      @ catch_Exception (write_error_report (scenario_options False) (scenario_world True True)
          (scenario_outputs True True))"
    by (simp add: main_shape scenario_setup_report scenario_save_corrected)
  also have "catch_Exception (write_error_report (scenario_options False)
        (scenario_world True True) (scenario_outputs True True)) =
      [LogUser ''TED FS: 1'', LogUser endl]
      @ write_error_files (scenario_options False) (scenario_world True True) (scenario_errors True)
      @ [Open plotFile_f ''plot'' App, Put plotFile_f ''1'', Put plotFile_f endl]"
    by (simp add: error_report_shape plot_line_shape scenario_outputs_def scenario_options_def
        scenario_option_def)
  also have "write_error_files (scenario_options False) (scenario_world True True)
        (scenario_errors True) =
      [Open splitFile ''out/rec.splits.data'' Trunc,
       Put splitFile ''1'', Put splitFile tab, Put splitFile ''1'', Put splitFile tab,
       Put splitFile ''2'', Put splitFile tab, Put splitFile endl,
       Open mergeFile ''out/rec.merges.data'' Trunc,
       Open fpFile ''out/rec.fps.data'' Trunc, Put fpFile ''3'', Put fpFile endl,
       Open fnFile ''out/rec.fns.data'' Trunc]"
    by (simp add: write_error_files_def split_events_def merge_events_def fp_events_def
        fn_events_def buildReportPath_def scenario_defs)
  finally show ?thesis by simp
qed

lemma scenario_main_no_background:
  "main (scenario_options False) (scenario_world True False) =
     [ReadDirectory ''groundtruth'', ReadDirectory ''rec'',
      WriteDirectory ''out/corrected_rec'',
      LogUser ''TED FS: 1'', LogUser endl,
      Open splitFile ''out/rec.splits.data'' Trunc,
      Put splitFile ''1'', Put splitFile tab, Put splitFile ''1'', Put splitFile tab,
      Put splitFile ''2'', Put splitFile tab, Put splitFile endl,
      Open mergeFile ''out/rec.merges.data'' Trunc,
      Open plotFile_f ''plot'' App, Put plotFile_f ''1'', Put plotFile_f endl]"
proof -
  have "\<not> is_set (optionPlotFileHeader (scenario_options False))"
    by (simp add: scenario_defs)
  then have "main (scenario_options False) (scenario_world True False) =
      [ReadDirectory ''groundtruth'', ReadDirectory ''rec'', WriteDirectory ''out/corrected_rec'']
      @ catch_Exception (write_error_report (scenario_options False) (scenario_world True False)
          (scenario_outputs True False))"
    by (simp add: main_shape scenario_setup_report scenario_save_corrected)
  also have "catch_Exception (write_error_report (scenario_options False)
        (scenario_world True False) (scenario_outputs True False)) =
      [LogUser ''TED FS: 1'', LogUser endl]
      @ write_error_files (scenario_options False) (scenario_world True False) (scenario_errors False)
      @ [Open plotFile_f ''plot'' App, Put plotFile_f ''1'', Put plotFile_f endl]"
    by (simp add: error_report_shape plot_line_shape scenario_outputs_def scenario_options_def
        scenario_option_def)
  also have "write_error_files (scenario_options False) (scenario_world True False)
        (scenario_errors False) =
      [Open splitFile ''out/rec.splits.data'' Trunc,
       Put splitFile ''1'', Put splitFile tab, Put splitFile ''1'', Put splitFile tab,
       Put splitFile ''2'', Put splitFile tab, Put splitFile endl,
       Open mergeFile ''out/rec.merges.data'' Trunc]"
    by (simp add: write_error_files_def split_events_def merge_events_def fp_events_def
        fn_events_def buildReportPath_def scenario_defs)
  finally show ?thesis by simp
qed





subsection \<open>The corrected reconstruction is optional\<close>

text \<open>
  Claim C4. In an evaluation run whose report node has no output
  \<open>ted corrected reconstruction\<close>, the request of line 231 raises \<open>NoSuchOutput\<close>, the
  handler of line 234 ends the block with nothing written, and the run goes on: with the
  three later outputs available, the trace of \<open>main\<close> is the setup, the human-readable
  report on the user log, the listing files when \<open>tedErrorFiles\<close> is set and the line
  appended to the plot file when \<open>plotFile\<close> is set. The exception handler of line 284
  is not reached.
\<close>

theorem missing_corrected_output_is_not_a_failure:
  assumes "\<not> is_set (optionPlotFileHeader opts)"
    and "setup_report opts w = (t0, Inr report)"
    and "ted_corrected_reconstruction report = Inl NoSuchOutput"
    and "human_readable_error_report report = Inr h"
    and "ted_errors report = Inr errors"
    and "error_report report = Inr r"
  shows "save_corrected_reconstruction opts w report = ([], Inr ()) \<and>
     main opts w =
       t0 @ [LogUser h, LogUser endl]
       @ (if is_set (optionTedErrorFiles opts) then write_error_files opts w errors else [])
       @ (if is_set (optionPlotFile opts) then
            [Open plotFile_f (as_string (optionPlotFile opts)) App,
             Put plotFile_f r, Put plotFile_f endl]
          else [])"
  using assms
  by (simp add: main_def evaluation_run_def save_corrected_reconstruction_def
      write_error_report_def write_error_listings_def write_plot_line_def io_defs Let_def)

theorem missing_corrected_output_witness:
  "ted_corrected_reconstruction (scenario_outputs False False) = Inl NoSuchOutput \<and>
   main (scenario_options False) (scenario_world False False) =
     [ReadDirectory ''groundtruth'', ReadDirectory ''rec'',
      LogUser ''TED FS: 1'', LogUser endl,
      Open splitFile ''out/rec.splits.data'' Trunc,
      Put splitFile ''1'', Put splitFile tab, Put splitFile ''1'', Put splitFile tab,
      Put splitFile ''2'', Put splitFile tab, Put splitFile endl,
      Open mergeFile ''out/rec.merges.data'' Trunc,
      Open plotFile_f ''plot'' App, Put plotFile_f ''1'', Put plotFile_f endl]"
proof -
  have h1: "\<not> is_set (optionPlotFileHeader (scenario_options False))"
    by (simp add: scenario_defs)
  have h3: "ted_corrected_reconstruction (scenario_outputs False False) = Inl NoSuchOutput"
    by (simp add: scenario_outputs_def)
  have h4: "human_readable_error_report (scenario_outputs False False) = Inr ''TED FS: 1''"
    by (simp add: scenario_outputs_def)
  have h5: "ted_errors (scenario_outputs False False) = Inr (scenario_errors False)"
    by (simp add: scenario_outputs_def)
  have h6: "error_report (scenario_outputs False False) = Inr ''1''"
    by (simp add: scenario_outputs_def)
  from missing_corrected_output_is_not_a_failure [OF h1 scenario_setup_report h3 h4 h5 h6] h3
  show ?thesis
    by (simp add: write_error_files_def split_events_def merge_events_def
        buildReportPath_def scenario_defs)
qed

subsection \<open>The header run\<close>

text \<open>
  Claim C5. When the option \<open>plotFileHeader\<close> is set (the test of line 187), the run
  consists of opening the plot file for appending and putting the report's header and an
  end of line to it; if the header cannot be had, the exception is handled instead.
  Nothing else happens: no stack is read or written, the report node is given no input
  (both are \<open>None\<close>), and no other output of it is requested.
\<close>

theorem header_only_run:
  assumes "is_set (optionPlotFileHeader opts)"
  shows "main opts w =
     Open plotFile_f (as_string (optionPlotFile opts)) App #
     (case error_report_header (ErrorReport w (parameters_of opts) None None) of
        Inl e \<Rightarrow> [HandleException e]
      | Inr reportText \<Rightarrow> [Put plotFile_f reportText, Put plotFile_f endl])"
  using assms by (simp add: main_def header_run_def io_defs split: sum.splits)

theorem header_only_run_witness:
  "is_set (optionPlotFileHeader (scenario_options True)) \<and>
   main (scenario_options True) (scenario_world True True) =
     [Open plotFile_f ''plot'' App, Put plotFile_f ''TED_FS'', Put plotFile_f endl]"
proof -
  have h: "is_set (optionPlotFileHeader (scenario_options True))"
    by (simp add: scenario_defs)
  from header_only_run [OF h, of "scenario_world True True"] h show ?thesis
    by (simp add: scenario_defs)
qed

subsection \<open>False positives and false negatives\<close>

lemma fp_fn_events_need_background:
  assumes "e \<in> set (write_error_files opts w errors)"
    and "on_stream fpFile e \<or> on_stream fnFile e"
  shows "hasBackgroundLabel errors"
proof (rule ccontr)
  assume "\<not> hasBackgroundLabel errors"
  with assms(1) have "e \<in> set (Open splitFile (buildReportPath w (as_string (optionTedErrorFiles opts))
        (as_string (optionReconstruction opts)) ''splits'') Trunc # split_events (put_label w) errors)
      \<or> e \<in> set (Open mergeFile (buildReportPath w (as_string (optionTedErrorFiles opts))
        (as_string (optionReconstruction opts)) ''merges'') Trunc # merge_events (put_label w) errors)"
    by (auto simp: write_error_files_def Let_def)
  with assms(2) show False
    by (auto simp: on_stream_split_events on_stream_merge_events)
qed

lemma fp_fn_streams_in_main:
  assumes "e \<in> set (main opts w)"
    and "on_stream fpFile e \<or> on_stream fnFile e"
  shows "\<exists>t0 report errors.
     \<not> is_set (optionPlotFileHeader opts) \<and> is_set (optionTedErrorFiles opts) \<and>
     setup_report opts w = (t0, Inr report) \<and> ted_errors report = Inr errors \<and>
     hasBackgroundLabel errors"
proof -
  have absent: "e \<notin> set t"
    if "filter (on_stream fpFile) t = []" and "filter (on_stream fnFile) t = []" for t
    using that assms(2) by (auto simp: filter_empty_conv)
  have nh: "\<not> is_set (optionPlotFileHeader opts)"
  proof
    assume "is_set (optionPlotFileHeader opts)"
    then have "main opts w = catch_Exception (header_run opts w)" by (simp add: main_shape)
    moreover have "e \<notin> set (catch_Exception (header_run opts w))"
      by (rule absent) (simp_all add: quiet_header_run)
    ultimately show False using assms(1) by simp
  qed
  obtain t0 r0 where s: "setup_report opts w = (t0, r0)" by (cases "setup_report opts w")
  have e0: "e \<notin> set t0"
    using absent [of t0] quiet_setup_report [of _ opts w] s by simp
  have eh: "e \<noteq> HandleException x" for x
    using assms(2) by auto
  show ?thesis
  proof (cases r0)
    case (Inl x)
    with nh s assms(1) e0 eh show ?thesis by (simp add: main_shape)
  next
    case (Inr report)
    obtain t1 r1 where c: "save_corrected_reconstruction opts w report = (t1, r1)"
      by (cases "save_corrected_reconstruction opts w report")
    have e1: "e \<notin> set t1"
      using absent [of t1] quiet_save_corrected [of _ opts w report] c by simp
    have ep: "e \<notin> set (catch_Exception (write_plot_line opts report))"
      by (rule absent) (simp_all add: quiet_plot_line)
    have el: "e \<noteq> LogUser x" for x
      using assms(2) by auto
    from nh s Inr c assms(1) e0 e1 eh have
      "e \<in> set (catch_Exception (write_error_report opts w report))"
      by (cases r1) (simp_all add: main_shape)
    with ep eh el obtain errors where l: "is_set (optionTedErrorFiles opts)"
      "ted_errors report = Inr errors" "e \<in> set (write_error_files opts w errors)"
      by (auto simp: error_report_shape split: sum.splits if_splits)
    from fp_fn_events_need_background [OF l(3) assms(2)] l nh s Inr show ?thesis by simp
  qed
qed

lemma overwrite_fields [simp]:
  "HAVE_HDF5 (overwrite_fp_fn fps fns w) = HAVE_HDF5 w"
  "readAndResize (overwrite_fp_fn fps fns w) = readAndResize w"
  "readAttribute (overwrite_fp_fn fps fns w) = readAttribute w"
  "ImageStackDirectoryReader (overwrite_fp_fn fps fns w) = ImageStackDirectoryReader w"
  "ExtractGroundTruthLabels (overwrite_fp_fn fps fns w) = ExtractGroundTruthLabels w"
  "ImageStackDirectoryWriter (overwrite_fp_fn fps fns w) = ImageStackDirectoryWriter w"
  "empty_stack (overwrite_fp_fn fps fns w) = empty_stack w"
  "path_stem (overwrite_fp_fn fps fns w) = path_stem w"
  "path_append (overwrite_fp_fn fps fns w) = path_append w"
  "put_label (overwrite_fp_fn fps fns w) = put_label w"
  by (simp_all add: overwrite_fp_fn_def)

lemma overwrite_read [simp]:
  "readImageStackFromOption (overwrite_fp_fn fps fns w) stack option =
     readImageStackFromOption w stack option"
  by (simp add: readImageStackFromOption_def Let_def cong: if_cong)

lemma overwrite_ground_truth_input [simp]:
  "ground_truth_input opts (overwrite_fp_fn fps fns w) groundTruth =
     ground_truth_input opts w groundTruth"
  by (simp add: ground_truth_input_def cong: if_cong)

lemma overwrite_paths [simp]:
  "buildReportPath (overwrite_fp_fn fps fns w) = buildReportPath w"
  "buildCorrectedPath (overwrite_fp_fn fps fns w) = buildCorrectedPath w"
  by (simp_all add: buildReportPath_def buildCorrectedPath_def fun_eq_iff)

lemma overwrite_write_error_files:
  "\<not> hasBackgroundLabel errors \<Longrightarrow>
   write_error_files opts w
     (errors\<lparr>getFalsePositives := fps, getFalseNegatives := fns\<rparr>) =
   write_error_files opts w errors"
  "write_error_files opts (overwrite_fp_fn fps fns w) errors = write_error_files opts w errors"
  by (simp_all add: write_error_files_def Let_def split_events_def merge_events_def)

lemma overwrite_main:
  "main opts (overwrite_fp_fn fps fns w) = main opts w"
proof (cases "is_set (optionPlotFileHeader opts)")
  case True
  then show ?thesis
    by (simp add: main_def header_run_def overwrite_fp_fn_def Let_def)
next
  case False
  let ?w = "overwrite_fp_fn fps fns w"
  let ?upd = "\<lambda>report. report\<lparr>ted_errors :=
       (case ted_errors report of
          Inl e \<Rightarrow> Inl e
        | Inr errors \<Rightarrow>
            Inr (if hasBackgroundLabel errors then errors
                 else errors\<lparr>getFalsePositives := fps, getFalseNegatives := fns\<rparr>))\<rparr>"
  have stp: "setup_report opts ?w =
      (case setup_report opts w of (t, Inl e) \<Rightarrow> (t, Inl e) | (t, Inr report) \<Rightarrow> (t, Inr (?upd report)))"
  proof -
    have er: "ErrorReport ?w p r g = ?upd (ErrorReport w p r g)" for p r g
      by (simp add: overwrite_fp_fn_def Let_def)
    show ?thesis
      by (auto simp: setup_report_def io_bind_def io_return_def er split: prod.splits sum.splits)
  qed
  have save: "save_corrected_reconstruction opts ?w (?upd report) =
      save_corrected_reconstruction opts w report" for report
    by (simp add: save_corrected_reconstruction_def Let_def)
  have plot: "write_plot_line opts (report\<lparr>ted_errors := x\<rparr>) = write_plot_line opts report"
    for report :: "('a, 'b, 'c) outputs" and x
    by (simp add: write_plot_line_def)
  have lst: "write_error_listings opts ?w (?upd report) = write_error_listings opts w report"
    for report
    by (cases "ted_errors report")
       (simp_all add: write_error_listings_def overwrite_write_error_files
          io_bind_def io_lift_def)
  have rep: "write_error_report opts ?w (?upd report) = write_error_report opts w report"
    for report
    by (simp add: write_error_report_def plot lst)
  show ?thesis
    by (simp add: main_def evaluation_run_def False stp io_bind_def save rep
        split: prod.splits sum.splits)
qed

lemma classified_without_background:
  "\<not> hasBackgroundLabel
      (classified_errors background rec_partners gt_partners gt_labels rec_labels sm) \<Longrightarrow>
   getFalsePositives
      (classified_errors background rec_partners gt_partners gt_labels rec_labels sm) = [] \<and>
   getFalseNegatives
      (classified_errors background rec_partners gt_partners gt_labels rec_labels sm) = []"
  by (simp add: classified_errors_def only_background_def)

text \<open>
  Claim C8. The false positives and false negatives depend on the background label. The
  structure the classifier hands out has a false positive, or a false negative, only if
  it has a background label (the classifier is modelled from the interface description).
  In every run of \<open>main\<close>, an event on the streams \<open>fpFile\<close> or \<open>fnFile\<close> (the files \<open>fps\<close>
  and \<open>fns\<close> being opened or written) occurs only if the run is an evaluation run with
  \<open>tedErrorFiles\<close> set whose structure has a background label. And \<open>main\<close> reads the two
  sets only under that label: replacing them in every structure without a background
  label changes nothing a run does.
\<close>

theorem fp_fn_only_with_background_label:
  "(getFalsePositives
      (classified_errors background rec_partners gt_partners gt_labels rec_labels sm) \<noteq> [] \<longrightarrow>
    hasBackgroundLabel
      (classified_errors background rec_partners gt_partners gt_labels rec_labels sm)) \<and>
   (getFalseNegatives
      (classified_errors background rec_partners gt_partners gt_labels rec_labels sm) \<noteq> [] \<longrightarrow>
    hasBackgroundLabel
      (classified_errors background rec_partners gt_partners gt_labels rec_labels sm)) \<and>
   (\<forall>e \<in> set (main opts w).
      on_stream fpFile e \<or> on_stream fnFile e \<longrightarrow>
      (\<exists>t0 report errors.
         \<not> is_set (optionPlotFileHeader opts) \<and> is_set (optionTedErrorFiles opts) \<and>
         setup_report opts w = (t0, Inr report) \<and> ted_errors report = Inr errors \<and>
         hasBackgroundLabel errors)) \<and>
   main opts (overwrite_fp_fn fps fns w) = main opts w"
  using classified_without_background [of background rec_partners gt_partners gt_labels rec_labels sm]
    fp_fn_streams_in_main [of _ opts w] overwrite_main [of opts fps fns w]
  by blast

theorem fp_fn_only_with_background_label_witness:
  "getFalsePositives classified_scenario = [3] \<and>
   getFalseNegatives classified_scenario = [4] \<and>
   hasBackgroundLabel classified_scenario \<and>
   Open fpFile ''out/rec.fps.data'' Trunc
     \<in> set (main (scenario_options False) (scenario_world True True)) \<and>
   (\<exists>t0 report errors.
      setup_report (scenario_options False) (scenario_world True True) = (t0, Inr report) \<and>
      ted_errors report = Inr errors \<and> hasBackgroundLabel errors) \<and>
   main (scenario_options False) (overwrite_fp_fn [7] [8] (scenario_world True False)) =
     main (scenario_options False) (scenario_world True False)"
proof -
  note t = fp_fn_only_with_background_label
    [of "Some 0" "\<lambda>gtLabel. if gtLabel = 4 then [0] else [1, 2]"
        "\<lambda>recLabel. if recLabel = 3 then [0] else [1]"
        "[1, 4]" "[1, 2, 3]" "scenario_errors False"
        "scenario_options False" "scenario_world True True" "[7]" "[8]"]
  have fp: "getFalsePositives classified_scenario = [3]"
    by (simp add: classified_scenario_def classified_errors_def only_background_def)
  have fn: "getFalseNegatives classified_scenario = [4]"
    by (simp add: classified_scenario_def classified_errors_def only_background_def)
  from fp have "getFalsePositives classified_scenario \<noteq> []" by simp
  moreover from fn have "getFalseNegatives classified_scenario \<noteq> []" by simp
  ultimately have bg: "hasBackgroundLabel classified_scenario"
    using t unfolding classified_scenario_def by blast
  have mem: "Open fpFile ''out/rec.fps.data'' Trunc
      \<in> set (main (scenario_options False) (scenario_world True True))"
    by (simp add: scenario_main)
  have on: "on_stream fpFile (Open fpFile ''out/rec.fps.data'' Trunc)" by simp
  from t mem on
  have ex: "\<exists>t0 report errors.
      setup_report (scenario_options False) (scenario_world True True) = (t0, Inr report) \<and>
      ted_errors report = Inr errors \<and> hasBackgroundLabel errors"
    by blast
  have "main (scenario_options False) (overwrite_fp_fn [7] [8] (scenario_world True False)) =
     main (scenario_options False) (scenario_world True False)"
    by (rule overwrite_main)
  with fp fn bg mem ex show ?thesis by blast
qed

subsection \<open>The format of the listings\<close>

text \<open>
  The listing of the concrete run is not the labels separated by tabs: the line of
  ground-truth label 1, split into 1 and 2, has a tab after its last label as well
  (lines 250 to 253). And a structure without a background label that holds the false
  positive 3 has nothing put to \<open>fpFile\<close> (line 263).
\<close>

theorem listing_line_ends_with_a_tab:
  "getSplitLabels (scenario_errors True) = [1] \<and>
   map scenario_put (1 # getSplits (scenario_errors True) 1) = [''1'', ''1'', ''2''] \<and>
   stream_text splitFile (main (scenario_options False) (scenario_world True True)) =
     ''1'' @ tab @ ''1'' @ tab @ ''2'' @ tab @ endl \<and>
   ''1'' @ tab @ ''1'' @ tab @ ''2'' @ tab @ endl \<noteq> tab_separated [''1'', ''1'', ''2''] @ endl \<and>
   getFalsePositives (scenario_errors False) = [3] \<and>
   stream_text fpFile (main (scenario_options False) (scenario_world True False)) = []"
proof -
  have "stream_text splitFile (main (scenario_options False) (scenario_world True True)) =
     ''1'' @ tab @ ''1'' @ tab @ ''2'' @ tab @ endl"
    unfolding scenario_main by simp
  moreover have "stream_text fpFile (main (scenario_options False) (scenario_world True False)) = []"
    unfolding scenario_main_no_background by simp
  moreover have "''1'' @ tab @ ''1'' @ tab @ ''2'' @ tab @ endl \<noteq>
      tab_separated [''1'', ''1'', ''2''] @ endl"
    by (simp add: tab_def endl_def)
  ultimately show ?thesis by (simp add: scenario_errors_def scenario_put_def)
qed

text \<open>
  Claim C9, amended. In an evaluation run that gets to the listings (\<open>tedErrorFiles\<close> is
  set and the outputs before them were had), the text put to \<open>splitFile\<close> is one line for
  each split label: the ground-truth label and the reconstruction labels it was split
  into, each followed by a tab, the last one too, and then the end of the line; in other
  words the labels separated by tabs, one more tab and the end of the line. The text put
  to \<open>mergeFile\<close> is the same with the reconstruction label first and the ground-truth
  labels merged into it after. If the structure has a background label, the text put to
  \<open>fpFile\<close> and to \<open>fnFile\<close> is each false positive and each false negative on a line of
  its own; if it has none, nothing is put to either.
\<close>

theorem error_listings_text:
  assumes "\<not> is_set (optionPlotFileHeader opts)"
    and "setup_report opts w = (t0, Inr report)"
    and "save_corrected_reconstruction opts w report = (t1, Inr ())"
    and "human_readable_error_report report = Inr h"
    and "is_set (optionTedErrorFiles opts)"
    and "ted_errors report = Inr errors"
  shows "stream_text splitFile (main opts w) =
       concat (map (\<lambda>gtLabel.
          tab_separated (map (put_label w) (gtLabel # getSplits errors gtLabel)) @ tab @ endl)
         (getSplitLabels errors)) \<and>
     stream_text mergeFile (main opts w) =
       concat (map (\<lambda>recLabel.
          tab_separated (map (put_label w) (recLabel # getMerges errors recLabel)) @ tab @ endl)
         (getMergeLabels errors)) \<and>
     stream_text fpFile (main opts w) =
       (if hasBackgroundLabel errors
        then concat (map (\<lambda>recLabel. put_label w recLabel @ endl) (getFalsePositives errors))
        else []) \<and>
     stream_text fnFile (main opts w) =
       (if hasBackgroundLabel errors
        then concat (map (\<lambda>gtLabel. put_label w gtLabel @ endl) (getFalseNegatives errors))
        else [])"
proof -
  have q0: "stream_text s t0 = []" for s
    using quiet_setup_report [of s opts w] assms(2) by (simp add: stream_text_quiet)
  have q1: "stream_text s t1 = []" for s
    using quiet_save_corrected [of s opts w report] assms(3) by (simp add: stream_text_quiet)
  show ?thesis
    unfolding main_reaches_listing [OF assms]
    by (simp add: q0 q1 stream_text_write_error_files stream_text_plot_line)
qed

theorem error_listings_text_witness:
  "stream_text splitFile (main (scenario_options False) listing_world) =
     ''1'' @ tab @ ''1'' @ tab @ ''2'' @ tab @ endl \<and>
   stream_text mergeFile (main (scenario_options False) listing_world) =
     ''4'' @ tab @ ''5'' @ tab @ ''6'' @ tab @ endl \<and>
   stream_text fpFile (main (scenario_options False) listing_world) = ''3'' @ endl \<and>
   stream_text fnFile (main (scenario_options False) listing_world) = ''7'' @ endl"
proof -
  have h1: "\<not> is_set (optionPlotFileHeader (scenario_options False))"
    by (simp add: scenario_defs)
  have h2: "setup_report (scenario_options False) listing_world =
      ([ReadDirectory ''groundtruth'', ReadDirectory ''rec''], Inr listing_outputs)"
    by (simp add: setup_report_def readImageStackFromOption_def ground_truth_input_def
        io_defs scenario_options_def scenario_option_def scenario_world_def listing_world_def)
  have h3: "save_corrected_reconstruction (scenario_options False) listing_world listing_outputs =
      ([WriteDirectory ''out/corrected_rec''], Inr ())"
    by (simp add: save_corrected_reconstruction_def buildCorrectedPath_def io_defs
        listing_world_def listing_outputs_def scenario_defs)
  have h4: "human_readable_error_report listing_outputs = Inr ''TED FS: 1''"
    by (simp add: listing_outputs_def scenario_outputs_def)
  have h5: "is_set (optionTedErrorFiles (scenario_options False))"
    by (simp add: scenario_defs)
  have h6: "ted_errors listing_outputs = Inr listing_errors"
    by (simp add: listing_outputs_def)
  from error_listings_text [OF h1 h2 h3 h4 h5 h6]
  show ?thesis
    by (simp add: listing_errors_def listing_put_def listing_world_def)
qed

subsection \<open>The plot file is appended to\<close>







subsection \<open>Volumes of different dimensions\<close>

text \<open>
  Claim C7. With a report node that checks the dimensions of its inputs as the interface
  description says, an evaluation run whose two stacks were read and differ in dimensions
  ends in the exception handler with \<open>ShapeMismatch\<close> right after the setup: whether the
  corrected reconstruction is missing or not, nothing is written to the log, to the
  listings or to the plot file, and the rest of the node is never run on the two volumes.
\<close>

theorem shape_mismatch_stops_the_run:
  assumes "\<not> is_set (optionPlotFileHeader opts)"
    and "ErrorReport w = precondition_checked dimensions core"
    and "readImageStackFromOption w (empty_stack w) (as_string (optionGroundTruth opts)) =
           (t1, Inr groundTruth)"
    and "readImageStackFromOption w (empty_stack w) (as_string (optionReconstruction opts)) =
           (t2, Inr reconstruction)"
    and "ground_truth_input opts w groundTruth = (t3, Inr gt)"
    and "dimensions gt \<noteq> dimensions reconstruction"
  shows "main opts w = t1 @ t2 @ t3 @ [HandleException ShapeMismatch]"
proof -
  let ?report = "precondition_checked dimensions core (parameters_of opts)
      (Some reconstruction) (Some gt)"
  have s: "setup_report opts w = (t1 @ t2 @ t3, Inr ?report)"
    using assms(2-5) by (simp add: setup_report_def io_bind_def io_return_def)
  have human: "human_readable_error_report ?report = Inl ShapeMismatch"
    using assms(6) by (simp add: precondition_checked_def)
  have "ted_corrected_reconstruction ?report = Inl NoSuchOutput \<or>
      ted_corrected_reconstruction ?report = Inl ShapeMismatch"
    using assms(6)
    by (simp add: precondition_checked_def violated_def split: sum.splits exn.splits)
  then have "save_corrected_reconstruction opts w ?report = ([], Inr ()) \<or>
      save_corrected_reconstruction opts w ?report = ([], Inl ShapeMismatch)"
    by (auto simp: save_corrected_reconstruction_def io_defs Let_def ShapeMismatch_def)
  with assms(1) s human show ?thesis
    by (auto simp: main_shape error_report_shape)
qed

theorem shape_mismatch_stops_the_run_witness:
  "scenario_dimensions (scenario_stack (length ''groundtruth'')) \<noteq>
     scenario_dimensions (scenario_stack (length ''rec'')) \<and>
   main (scenario_options False) mismatch_world =
     [ReadDirectory ''groundtruth'', ReadDirectory ''rec'', HandleException ShapeMismatch]"
proof -
  have h1: "\<not> is_set (optionPlotFileHeader (scenario_options False))"
    by (simp add: scenario_defs)
  have h2: "ErrorReport mismatch_world = precondition_checked scenario_dimensions
      (\<lambda>parameters reconstruction groundTruth. scenario_outputs True True)"
    by (simp add: mismatch_world_def)
  have h3: "readImageStackFromOption mismatch_world (empty_stack mismatch_world)
      (as_string (optionGroundTruth (scenario_options False))) =
        ([ReadDirectory ''groundtruth''], Inr (scenario_stack (length ''groundtruth'')))"
    by (simp add: readImageStackFromOption_def io_defs mismatch_world_def scenario_world_def
        scenario_options_def scenario_option_def)
  have h4: "readImageStackFromOption mismatch_world (empty_stack mismatch_world)
      (as_string (optionReconstruction (scenario_options False))) =
        ([ReadDirectory ''rec''], Inr (scenario_stack (length ''rec'')))"
    by (simp add: readImageStackFromOption_def io_defs mismatch_world_def scenario_world_def
        scenario_options_def scenario_option_def)
  have h5: "ground_truth_input (scenario_options False) mismatch_world
      (scenario_stack (length ''groundtruth'')) =
      ([], Inr (scenario_stack (length ''groundtruth'')))"
    by (simp add: ground_truth_input_def io_defs scenario_options_def scenario_option_def)
  have h6: "scenario_dimensions (scenario_stack (length ''groundtruth'')) \<noteq>
     scenario_dimensions (scenario_stack (length ''rec''))"
    by (simp add: scenario_dimensions_def scenario_stack_def)
  from shape_mismatch_stops_the_run [OF h1 h2 h3 h4 h5 h6] h6 show ?thesis
    by simp
qed

end
